theory Spec2Isabelle
  imports Complex_Main
begin

section \<open>Slide registry\<close>

text \<open>
  The constant \<^verbatim>\<open>SLIDES\<close> of \<^verbatim>\<open>src/app/page.tsx\<close>: the ordered list of slide
  identifiers, in the order of the source. The identifiers are string literals, so the
  registry is a list of strings; \<^verbatim>\<open>SLIDES.length\<close> is its length.
\<close>

definition SLIDES :: "string list" where
  "SLIDES =
    [''title'',
     ''two-solutions'',
     ''influence-map'',
     ''os-solution'',
     ''macos-intro'',
     ''mingei-intro'',
     ''boids-intro'',
     ''dithering-intro'',
     ''os2-solution'',
     ''ps4-intro'',
     ''ps4-principles'',
     ''tanaka-intro'',
     ''tanaka-principles'',
     ''common-thread'',
     ''ma-concept'',
     ''comparison'',
     ''conclusion'',
     ''mockups'']"

section \<open>Payload lookup\<close>

text \<open>
  \<^verbatim>\<open>SlideContent\<close> is a \<^verbatim>\<open>switch\<close> over the identifier that returns one JSX element per
  case and \<^verbatim>\<open>null\<close> in the \<^verbatim>\<open>default\<close> branch. The element returned is named by the
  component it instantiates; \<^verbatim>\<open>null\<close> is \<open>None\<close>. The cases are in the order of the source.
\<close>

datatype component =
    SlideTitle
  | SlideTwoSolutions
  | SlideInfluenceMap
  | SlideOSSolution
  | SlideOS2Solution
  | SlideTanakaIntro
  | SlideTanakaPrinciples
  | SlidePS4Intro
  | SlidePS4Principles
  | SlideMingeiIntro
  | SlideBoidsIntro
  | SlideDitheringIntro
  | SlideMacOSIntro
  | SlideCommonThread
  | SlideMaConcept
  | SlideComparison
  | SlideConclusion
  | SlideMockups

definition SlideContent :: "string \<Rightarrow> component option" where
  "SlideContent slideId =
    (if slideId = ''title'' then Some SlideTitle
     else if slideId = ''two-solutions'' then Some SlideTwoSolutions
     else if slideId = ''influence-map'' then Some SlideInfluenceMap
     else if slideId = ''os-solution'' then Some SlideOSSolution
     else if slideId = ''os2-solution'' then Some SlideOS2Solution
     else if slideId = ''tanaka-intro'' then Some SlideTanakaIntro
     else if slideId = ''tanaka-principles'' then Some SlideTanakaPrinciples
     else if slideId = ''ps4-intro'' then Some SlidePS4Intro
     else if slideId = ''ps4-principles'' then Some SlidePS4Principles
     else if slideId = ''mingei-intro'' then Some SlideMingeiIntro
     else if slideId = ''boids-intro'' then Some SlideBoidsIntro
     else if slideId = ''dithering-intro'' then Some SlideDitheringIntro
     else if slideId = ''macos-intro'' then Some SlideMacOSIntro
     else if slideId = ''common-thread'' then Some SlideCommonThread
     else if slideId = ''ma-concept'' then Some SlideMaConcept
     else if slideId = ''comparison'' then Some SlideComparison
     else if slideId = ''conclusion'' then Some SlideConclusion
     else if slideId = ''mockups'' then Some SlideMockups
     else None)"

section \<open>Navigation state and its transitions\<close>

text \<open>
  The two \<^verbatim>\<open>useState\<close> cells of \<^verbatim>\<open>DesignInfluencesPresentation\<close>, both initialised
  to \<open>0\<close>. They hold JavaScript numbers that only ever receive integers here, so both
  are \<open>int\<close>.
\<close>

record nav_state =
  currentSlide :: int
  direction :: int

definition initial_state :: nav_state where
  "initial_state = \<lparr>currentSlide = 0, direction = 0\<rparr>"

text \<open>
  The three callbacks, called in a render of the state \<open>s\<close>: the \<^verbatim>\<open>currentSlide\<close> their
  guards read is the one of \<open>s\<close>, and \<^verbatim>\<open>setCurrentSlide(prev => prev + 1)\<close> adds to the
  very value the guard has read. Every call made by a key press or a click is of this
  kind: React renders after each such event, before the next one is handled. Calls that
  share a render are modelled further down.
\<close>

definition goToSlide :: "int \<Rightarrow> nav_state \<Rightarrow> nav_state" where
  "goToSlide index s =
    (if index \<ge> 0 \<and> index < int (length SLIDES)
     then s\<lparr>direction := (if index > currentSlide s then 1 else - 1),
            currentSlide := index\<rparr>
     else s)"

definition nextSlide :: "nav_state \<Rightarrow> nav_state" where
  "nextSlide s =
    (if currentSlide s < int (length SLIDES) - 1
     then s\<lparr>direction := 1, currentSlide := currentSlide s + 1\<rparr>
     else s)"

definition prevSlide :: "nav_state \<Rightarrow> nav_state" where
  "prevSlide s =
    (if currentSlide s > 0
     then s\<lparr>direction := - 1, currentSlide := currentSlide s - 1\<rparr>
     else s)"

subsection \<open>Calls and renders\<close>












subsection \<open>Input bindings\<close>

text \<open>
  \<^verbatim>\<open>handleKeyDown\<close> dispatches on \<^verbatim>\<open>e.key\<close>. The prev and next buttons carry
  \<^verbatim>\<open>disabled\<close> attributes, and a disabled button delivers no click; there is one dot
  per registry entry, so a dot click carries an index below the registry length.
\<close>

definition handleKeyDown :: "string \<Rightarrow> nav_state \<Rightarrow> nav_state" where
  "handleKeyDown key s =
    (if key = ''ArrowRight'' \<or> key = '' '' then nextSlide s
     else if key = ''ArrowLeft'' then prevSlide s
     else s)"

definition prevDisabled :: "nav_state \<Rightarrow> bool" where
  "prevDisabled s = (currentSlide s = 0)"

definition nextDisabled :: "nav_state \<Rightarrow> bool" where
  "nextDisabled s = (currentSlide s = int (length SLIDES) - 1)"

datatype event = KeyDown string | ClickPrev | ClickNext | ClickDot nat

fun handle :: "event \<Rightarrow> nav_state \<Rightarrow> nav_state" where
  "handle (KeyDown key) s = handleKeyDown key s"
| "handle ClickPrev s = (if prevDisabled s then s else prevSlide s)"
| "handle ClickNext s = (if nextDisabled s then s else nextSlide s)"
| "handle (ClickDot i) s = (if i < length SLIDES then goToSlide (int i) s else s)"

fun handle_all :: "nav_state \<Rightarrow> event list \<Rightarrow> nav_state" where
  "handle_all s [] = s"
| "handle_all s (e # es) = handle_all (handle e s) es"

subsection \<open>Rendered indicators\<close>

text \<open>
  The counter is the JSX text \<^verbatim>\<open>{currentSlide + 1} / {SLIDES.length}\<close>: two numbers
  in decimal around the literal \<^verbatim>\<open>" / "\<close>.
\<close>

fun natToString :: "nat \<Rightarrow> string" where
  "natToString n =
    (if n < 10 then [''0123456789'' ! n]
     else natToString (n div 10) @ [''0123456789'' ! (n mod 10)])"

declare natToString.simps [simp del]

definition numberToString :: "int \<Rightarrow> string" where
  "numberToString i =
    (if i < 0 then CHR ''-'' # natToString (nat (- i)) else natToString (nat i))"

definition counterText :: "nav_state \<Rightarrow> string" where
  "counterText s =
    numberToString (currentSlide s + 1) @ '' / '' @ numberToString (int (length SLIDES))"

text \<open>
  The progress bar's width is \<^verbatim>\<open>((currentSlide + 1) / SLIDES.length) * 100\<close> percent,
  computed on JavaScript numbers: IEEE 754 binary64, every operation rounded to the
  nearest representable value, ties to the even significand. A finite double is a
  rational, so a double is modelled by its exact value. \<open>fl64\<close> rounds a rational to
  53 significant bits; it answers \<open>None\<close> when \<open>x\<close> lies below the range of normal
  doubles or the rounded value beyond it, where the source would go on with a
  subnormal or an infinity.
\<close>

function bitlength :: "int \<Rightarrow> int" where
  "bitlength a = (if a \<le> 0 then 0 else 1 + bitlength (a div 2))"
  by pat_completeness auto
termination
  by (relation "measure nat") auto

declare bitlength.simps [simp del]

definition pow2 :: "int \<Rightarrow> rat" where
  "pow2 e = (if e \<ge> 0 then 2 ^ nat e else 1 / 2 ^ nat (- e))"

text \<open>
  For \<open>x > 0\<close>, the exponent \<open>e\<close> with \<open>2\<^sup>e \<le> x < 2\<^sup>e\<^sup>+\<^sup>1\<close>: for \<open>x = a / b\<close> it is the
  difference of the bit lengths of \<open>a\<close> and \<open>b\<close>, or one less.
\<close>

definition ilog2 :: "rat \<Rightarrow> int" where
  "ilog2 x =
    (let a = fst (quotient_of x);
         b = snd (quotient_of x);
         e = bitlength a - bitlength b
     in if pow2 e \<le> x then e else e - 1)"

definition roundHalfEven :: "rat \<Rightarrow> int" where
  "roundHalfEven q =
    (let f = \<lfloor>q\<rfloor>;
         r = q - of_int f
     in if r < 1 / 2 then f
        else if r > 1 / 2 then f + 1
        else if even f then f else f + 1)"

definition fl64 :: "rat \<Rightarrow> rat option" where
  "fl64 x =
    (if x = 0 then Some 0
     else if ilog2 \<bar>x\<bar> < - 1022 then None
     else
       let e = ilog2 \<bar>x\<bar> - 52;
           y = sgn x * of_int (roundHalfEven (\<bar>x\<bar> / pow2 e)) * pow2 e
       in if ilog2 \<bar>y\<bar> < 1024 then Some y else None)"

definition progressRatio :: "nav_state \<Rightarrow> rat option" where
  "progressRatio s = fl64 (of_int (currentSlide s + 1) / of_nat (length SLIDES))"

definition progressWidth :: "nav_state \<Rightarrow> rat option" where
  "progressWidth s =
    (case progressRatio s of
       None \<Rightarrow> None
     | Some r \<Rightarrow> fl64 (r * 100))"

text \<open>
  \<open>within_relative v x eps\<close>: the computation produced a value, and it differs from
  \<open>x\<close> by at most \<open>x * eps\<close>.
\<close>

definition within_relative :: "rat option \<Rightarrow> rat \<Rightarrow> rat \<Rightarrow> bool" where
  "within_relative v x eps =
    (case v of
       None \<Rightarrow> False
     | Some y \<Rightarrow> \<bar>y - x\<bar> \<le> x * eps)"

section \<open>Basic facts\<close>

lemma SLIDES_length: "length SLIDES = 18"
  by (simp add: SLIDES_def)


section \<open>The bounds invariant\<close>















section \<open>The end-to-end scenario\<close>

text \<open>
  Claim C2, as stated, fails on the code. The registry holds 18 identifiers, not 17:
  after 16 right-arrow presses the position is 16 and the next button is still enabled,
  and a 17th press moves on to position 17.
\<close>

theorem scenario_counterexample:
  "length SLIDES \<noteq> 17 \<and>
   currentSlide (handle_all initial_state (replicate 16 (KeyDown ''ArrowRight''))) = 16 \<and>
   \<not> nextDisabled (handle_all initial_state (replicate 16 (KeyDown ''ArrowRight''))) \<and>
   currentSlide (handle_all initial_state (replicate 17 (KeyDown ''ArrowRight''))) \<noteq> 16"
  by code_simp

text \<open>
  Claim C2, amended to the registry's length 18. From position 0, 17 right-arrow presses
  reach position 17 with the next button disabled; one more press leaves the position at
  17; a click on dot 3 gives position 3 and direction \<open>-1\<close>; three left-arrow presses
  give position 0 with the prev button disabled.
\<close>

theorem scenario_18:
  "length SLIDES = 18 \<and>
   currentSlide initial_state = 0 \<and>
   currentSlide (handle_all initial_state (replicate 17 (KeyDown ''ArrowRight''))) = 17 \<and>
   nextDisabled (handle_all initial_state (replicate 17 (KeyDown ''ArrowRight''))) \<and>
   currentSlide (handle_all initial_state (replicate 18 (KeyDown ''ArrowRight''))) = 17 \<and>
   currentSlide (handle_all initial_state
      (replicate 18 (KeyDown ''ArrowRight'') @ [ClickDot 3])) = 3 \<and>
   direction (handle_all initial_state
      (replicate 18 (KeyDown ''ArrowRight'') @ [ClickDot 3])) = - 1 \<and>
   currentSlide (handle_all initial_state
      (replicate 18 (KeyDown ''ArrowRight'') @ [ClickDot 3] @
       replicate 3 (KeyDown ''ArrowLeft''))) = 0 \<and>
   prevDisabled (handle_all initial_state
      (replicate 18 (KeyDown ''ArrowRight'') @ [ClickDot 3] @
       replicate 3 (KeyDown ''ArrowLeft'')))"
  by code_simp

section \<open>Single transitions\<close>

text \<open>
  Claim C3. In any state, \<open>retreat()\<close> at position 0 leaves the position unchanged, and
  \<open>advance()\<close> at position \<open>N - 1\<close> leaves the position unchanged.
\<close>

theorem boundary_noop:
  "(currentSlide s = 0 \<longrightarrow> currentSlide (prevSlide s) = currentSlide s) \<and>
   (currentSlide s = int (length SLIDES) - 1 \<longrightarrow>
      currentSlide (nextSlide s) = currentSlide s)"
  by (simp add: prevSlide_def nextSlide_def)

theorem boundary_noop_witness:
  "currentSlide \<lparr>currentSlide = 0, direction = 1\<rparr> = 0 \<and>
   currentSlide (prevSlide \<lparr>currentSlide = 0, direction = 1\<rparr>) = 0 \<and>
   currentSlide \<lparr>currentSlide = 17, direction = 1\<rparr> = int (length SLIDES) - 1 \<and>
   currentSlide (nextSlide \<lparr>currentSlide = 17, direction = 1\<rparr>) = 17"
  using boundary_noop [of "\<lparr>currentSlide = 0, direction = 1\<rparr>"]
    boundary_noop [of "\<lparr>currentSlide = 17, direction = 1\<rparr>"]
  by (simp add: SLIDES_length)

text \<open>
  Claim C4. In any state, \<open>goTo(-1)\<close> and \<open>goTo(N)\<close> change nothing: position and
  direction are the two fields of the state, and the state is returned as it was.
\<close>

theorem out_of_range_rejection:
  "goToSlide (- 1) s = s \<and> goToSlide (int (length SLIDES)) s = s"
  by (simp add: goToSlide_def)

text \<open>
  Claim C5. After \<open>goTo(target)\<close> with \<open>target\<close> in \<open>[0, N)\<close>, the direction is \<open>+1\<close>
  when \<open>target\<close> is above the position before the call and \<open>-1\<close> when it is below.
\<close>

theorem direction_correctness:
  assumes "0 \<le> target" and "target < int (length SLIDES)"
  shows "(target > currentSlide s \<longrightarrow> direction (goToSlide target s) = 1) \<and>
         (target < currentSlide s \<longrightarrow> direction (goToSlide target s) = - 1)"
  using assms by (simp add: goToSlide_def)

theorem direction_correctness_witness:
  "(0::int) \<le> 5 \<and> (5::int) < int (length SLIDES) \<and>
   5 > currentSlide \<lparr>currentSlide = 2, direction = - 1\<rparr> \<and>
   direction (goToSlide 5 \<lparr>currentSlide = 2, direction = - 1\<rparr>) = 1 \<and>
   5 < currentSlide \<lparr>currentSlide = 9, direction = 1\<rparr> \<and>
   direction (goToSlide 5 \<lparr>currentSlide = 9, direction = 1\<rparr>) = - 1"
  using direction_correctness [of 5 "\<lparr>currentSlide = 2, direction = - 1\<rparr>"]
    direction_correctness [of 5 "\<lparr>currentSlide = 9, direction = 1\<rparr>"]
  by (simp add: SLIDES_length)

text \<open>
  Claim C6. In every state of the machine, that is every position in \<open>[0, N)\<close> with any
  direction, \<open>advance()\<close> yields the same state as \<open>goTo(position + 1)\<close> and \<open>retreat()\<close>
  the same state as \<open>goTo(position - 1)\<close>: both fields agree, at the two ends as well,
  where all four calls change nothing.
\<close>

theorem advance_retreat_as_goTo:
  assumes "0 \<le> currentSlide s" and "currentSlide s < int (length SLIDES)"
  shows "nextSlide s = goToSlide (currentSlide s + 1) s \<and>
         prevSlide s = goToSlide (currentSlide s - 1) s"
  using assms by (simp add: nextSlide_def prevSlide_def goToSlide_def)

theorem advance_retreat_as_goTo_witness:
  "0 \<le> currentSlide \<lparr>currentSlide = 17, direction = 0\<rparr> \<and>
   currentSlide \<lparr>currentSlide = 17, direction = 0\<rparr> < int (length SLIDES) \<and>
   nextSlide \<lparr>currentSlide = 17, direction = 0\<rparr> =
     goToSlide 18 \<lparr>currentSlide = 17, direction = 0\<rparr> \<and>
   prevSlide \<lparr>currentSlide = 17, direction = 0\<rparr> =
     goToSlide 16 \<lparr>currentSlide = 17, direction = 0\<rparr>"
  using advance_retreat_as_goTo [of "\<lparr>currentSlide = 17, direction = 0\<rparr>"]
  by (simp add: SLIDES_length)

section \<open>Indicators\<close>

text \<open>
  \<open>fl64\<close> at known doubles: \<open>0.1\<close> and \<open>-1/3\<close>, a value that is already a double, and
  the two kinds of tie between neighbouring doubles above \<open>2\<^sup>5\<^sup>3\<close>.
\<close>

lemma fl64_examples:
  "fl64 (1 / 10) = Some (3602879701896397 / 2 ^ 55)"
  "fl64 (- 1 / 3) = Some (- 6004799503160661 / 2 ^ 54)"
  "fl64 (1 / 2) = Some (1 / 2)"
  "fl64 9007199254740993 = Some 9007199254740992"
  "fl64 9007199254740995 = Some 9007199254740996"
  by code_simp+

lemma indicator_values:
  "\<forall>c \<in> set [0..17].
     within_relative (progressRatio \<lparr>currentSlide = c, direction = 0\<rparr>)
       (of_int (c + 1) / 18) (1 / 2 ^ 53) \<and>
     within_relative (progressWidth \<lparr>currentSlide = c, direction = 0\<rparr>)
       (of_int (c + 1) / 18 * 100) (1 / 2 ^ 52)"
  by code_simp

lemma progressRatio_position:
  "progressRatio s = progressRatio \<lparr>currentSlide = currentSlide s, direction = 0\<rparr>"
  by (simp add: progressRatio_def)

lemma progressWidth_position:
  "progressWidth s = progressWidth \<lparr>currentSlide = currentSlide s, direction = 0\<rparr>"
  by (simp add: progressWidth_def progressRatio_def)

text \<open>
  Claim C7, as stated, fails on the code. At position 4, which \<open>goTo(4)\<close> reaches from
  the initial state, the fill ratio is the double nearest to \<open>5 / 18\<close>, which is not
  \<open>5 / 18\<close>, and the width is the double \<open>3909374676536889 / 2\<^sup>4\<^sup>7\<close>, printed
  \<^verbatim>\<open>27.77777777777778\<close>, not \<open>250 / 9\<close>.
\<close>

theorem indicator_counterexample:
  "progressRatio \<lparr>currentSlide = 4, direction = 1\<rparr> = Some (2501999792983609 / 2 ^ 53) \<and>
   progressRatio \<lparr>currentSlide = 4, direction = 1\<rparr> \<noteq> Some (5 / 18) \<and>
   progressWidth \<lparr>currentSlide = 4, direction = 1\<rparr> = Some (3909374676536889 / 2 ^ 47) \<and>
   progressWidth \<lparr>currentSlide = 4, direction = 1\<rparr> \<noteq> Some (5 / 18 * 100)"
  by code_simp

text \<open>
  Claim C7, amended to binary64 arithmetic. In every state with position \<open>p\<close> in
  \<open>[0, N)\<close>, the counter reads the decimal of \<open>p + 1\<close>, then \<^verbatim>\<open>" / "\<close>, then the decimal
  of \<open>N\<close>; the fill ratio is \<open>(p + 1) / N\<close> rounded to the nearest double, within a
  relative \<open>2\<^sup>-\<^sup>5\<^sup>3\<close> of \<open>(p + 1) / N\<close>, and the width, that ratio times 100 rounded
  again, is within a relative \<open>2\<^sup>-\<^sup>5\<^sup>2\<close> of \<open>100 (p + 1) / N\<close>.
\<close>

theorem indicator_consistency_binary64:
  assumes "0 \<le> currentSlide s" and "currentSlide s < int (length SLIDES)"
    and "p = nat (currentSlide s)"
  shows "counterText s = natToString (p + 1) @ '' / '' @ natToString (length SLIDES) \<and>
         progressRatio s = fl64 (of_nat (p + 1) / of_nat (length SLIDES)) \<and>
         within_relative (progressRatio s)
           (of_nat (p + 1) / of_nat (length SLIDES)) (1 / 2 ^ 53) \<and>
         within_relative (progressWidth s)
           (of_nat (p + 1) / of_nat (length SLIDES) * 100) (1 / 2 ^ 52)"
proof -
  have p: "int p = currentSlide s"
    using assms by simp
  have "nat (currentSlide s + 1) = p + 1"
    using assms by (simp add: nat_add_distrib)
  then have c: "counterText s = natToString (p + 1) @ '' / '' @ natToString (length SLIDES)"
    using assms(1) by (simp add: counterText_def numberToString_def)
  have q: "(of_int (currentSlide s + 1) :: rat) = of_nat (p + 1)"
    using p by (simp flip: p)
  then have r: "progressRatio s = fl64 (of_nat (p + 1) / of_nat (length SLIDES))"
    unfolding progressRatio_def by (simp only:)
  have "currentSlide s \<in> set [0..17]"
    using assms(1,2) by (simp add: SLIDES_length)
  with indicator_values have
    "within_relative (progressRatio \<lparr>currentSlide = currentSlide s, direction = 0\<rparr>)
       (of_int (currentSlide s + 1) / 18) (1 / 2 ^ 53) \<and>
     within_relative (progressWidth \<lparr>currentSlide = currentSlide s, direction = 0\<rparr>)
       (of_int (currentSlide s + 1) / 18 * 100) (1 / 2 ^ 52)"
    by blast
  then have w: "within_relative (progressRatio s)
        (of_nat (p + 1) / of_nat (length SLIDES)) (1 / 2 ^ 53) \<and>
      within_relative (progressWidth s)
        (of_nat (p + 1) / of_nat (length SLIDES) * 100) (1 / 2 ^ 52)"
    unfolding q SLIDES_length
    by (simp only: progressRatio_position [symmetric] progressWidth_position [symmetric]
        of_nat_numeral)
  from c r w show ?thesis by (simp only: simp_thms)
qed

theorem indicator_consistency_binary64_witness:
  "0 \<le> currentSlide \<lparr>currentSlide = 4, direction = 1\<rparr> \<and>
   currentSlide \<lparr>currentSlide = 4, direction = 1\<rparr> < int (length SLIDES) \<and>
   counterText \<lparr>currentSlide = 4, direction = 1\<rparr> = ''5 / 18'' \<and>
   within_relative (progressRatio \<lparr>currentSlide = 4, direction = 1\<rparr>) (5 / 18) (1 / 2 ^ 53) \<and>
   within_relative (progressWidth \<lparr>currentSlide = 4, direction = 1\<rparr>) (250 / 9) (1 / 2 ^ 52)"
  using indicator_consistency_binary64 [of "\<lparr>currentSlide = 4, direction = 1\<rparr>" 4]
  by code_simp

section \<open>The same-position call\<close>

text \<open>
  Claim C8. For every position \<open>p\<close> in \<open>[0, N)\<close>, \<open>goTo(p)\<close> called at position \<open>p\<close>
  leaves the position at \<open>p\<close> and sets the direction to \<open>-1\<close>, whatever it was before.
\<close>

theorem same_position_goTo:
  assumes "0 \<le> p" and "p < int (length SLIDES)" and "currentSlide s = p"
  shows "currentSlide (goToSlide p s) = p \<and> direction (goToSlide p s) = - 1"
  using assms by (simp add: goToSlide_def)

theorem same_position_goTo_witness:
  "(0::int) \<le> 4 \<and> 4 < int (length SLIDES) \<and>
   currentSlide \<lparr>currentSlide = 4, direction = 1\<rparr> = 4 \<and>
   currentSlide (goToSlide 4 \<lparr>currentSlide = 4, direction = 1\<rparr>) = 4 \<and>
   direction (goToSlide 4 \<lparr>currentSlide = 4, direction = 1\<rparr>) = - 1"
  using same_position_goTo [of 4 "\<lparr>currentSlide = 4, direction = 1\<rparr>"]
  by (simp add: SLIDES_length)

section \<open>Exhaustive payload lookup\<close>

text \<open>
  Claim C9. Every identifier of the registry is resolved by \<^verbatim>\<open>SlideContent\<close> to a
  component: the \<^verbatim>\<open>default\<close> branch, which returns \<^verbatim>\<open>null\<close>, is not taken for any of them.
\<close>

theorem payload_lookup_exhaustive:
  "slideId \<in> set SLIDES \<Longrightarrow> SlideContent slideId \<noteq> None"
  unfolding SLIDES_def SlideContent_def by auto

theorem payload_lookup_exhaustive_witness:
  "''mockups'' \<in> set SLIDES \<and> SlideContent ''mockups'' \<noteq> None"
  using payload_lookup_exhaustive [of "''mockups''"]
  by (simp add: SLIDES_def)

section \<open>Round trips\<close>




end
